theory Spec2Isabelle
  imports Main
begin

section \<open>Data model of \<open>lib/goose/dbconf.go\<close>\<close>

text \<open>
  Go's \<open>error\<close> interface. The code distinguishes three kinds of value: a
  \<open>*pq.Error\<close> (recognised by the type assertion \<open>err.(*pq.Error)\<close>, with its
  \<open>Code\<close> field), a value made by \<open>errors.New\<close>, and any other error a library
  hands back. A nil error is \<open>None\<close> of \<open>go_error option\<close>.
\<close>

datatype go_error =
    PqError (Code: string) (Message: string)
  | ErrorString string
  | LibError string

text \<open>
  The interface \<open>SqlDialect\<close>: \<open>&PostgresDialect{}\<close> is the one implementation the
  file names; every other implementation is \<open>OtherDialect\<close> with a tag. A nil interface
  value is \<open>None\<close>.
\<close>

datatype SqlDialect = PostgresDialect | OtherDialect nat

record DBDriver =
  Name :: string
  OpenStr :: string
  Import :: string
  Dialect :: "SqlDialect option"

record DBConf =
  MigrationsDir :: string
  Env :: string
  Driver :: DBDriver
  PgSchema :: string

section \<open>The pattern \<open>dbname=([^ ]+)\<close>\<close>

text \<open>
  \<open>regexp.MustCompile("dbname=([^ ]+)")\<close>: the literal \<open>dbname=\<close> followed by a greedy,
  non-empty run of characters other than the space \<open>0x20\<close>. \<open>match_here s\<close> is the match
  that starts at the first character of \<open>s\<close>: the captured group and what is left of
  \<open>s\<close> after the match.
\<close>

definition not_space :: "char \<Rightarrow> bool" where
  "not_space c = (c \<noteq> CHR '' '')"

definition match_here :: "string \<Rightarrow> (string \<times> string) option" where
  "match_here s =
     (if take 7 s = ''dbname='' \<and> takeWhile not_space (drop 7 s) \<noteq> []
      then Some (takeWhile not_space (drop 7 s), dropWhile not_space (drop 7 s))
      else None)"

text \<open>
  \<open>regex.FindStringSubmatch\<close>: the leftmost match, as the list of the whole match and
  the group; \<open>None\<close> is Go's nil slice.
\<close>

fun FindStringSubmatch :: "string \<Rightarrow> string list option" where
  "FindStringSubmatch s =
     (case match_here s of
        Some (v, rest) \<Rightarrow> Some [''dbname='' @ v, v]
      | None \<Rightarrow> (case s of [] \<Rightarrow> None | c # cs \<Rightarrow> FindStringSubmatch cs))"

lemma match_here_shorter:
  "match_here s = Some (v, rest) \<Longrightarrow> length rest < length s"
proof -
  assume a: "match_here s = Some (v, rest)"
  then have t7: "take 7 s = ''dbname=''" and r: "rest = dropWhile not_space (drop 7 s)"
    by (auto simp: match_here_def split: if_splits)
  from t7 have "length (take 7 s) = 7"
    by simp
  then have "7 \<le> length s"
    by simp
  moreover have "length rest \<le> length (drop 7 s)"
    unfolding r by (rule length_dropWhile_le)
  ultimately show ?thesis using t7 by auto
qed

text \<open>
  \<open>regex.ReplaceAllLiteralString\<close>: every match, left to right and without overlap, is
  replaced by \<open>repl\<close>; the text between matches is copied.
\<close>

function ReplaceAllLiteralString :: "string \<Rightarrow> string \<Rightarrow> string" where
  "ReplaceAllLiteralString s repl =
     (case match_here s of
        Some (v, rest) \<Rightarrow> repl @ ReplaceAllLiteralString rest repl
      | None \<Rightarrow> (case s of [] \<Rightarrow> [] | c # cs \<Rightarrow> c # ReplaceAllLiteralString cs repl))"
  by pat_completeness auto
termination
  by (relation "measure (\<lambda>(s, repl). length s)") (auto dest: match_here_shorter)

declare FindStringSubmatch.simps [simp del] ReplaceAllLiteralString.simps [simp del]

section \<open>The database library, as the code sees it\<close>

text \<open>
  A \<open>*sql.DB\<close> is a handle; a nil pointer is \<open>None\<close> of \<open>db option\<close>. Every call the
  code makes on \<open>database/sql\<close> and every line it prints is an event, recorded with
  the answer the library gave.
\<close>

type_synonym db = nat

datatype event =
    SqlOpen string string "go_error + db"
  | Ping db "go_error option"
  | Exec db string "go_error option"
  | Close db
  | Println string

text \<open>
  The library and the server behind it are not part of the program: their answers are
  a parameter. An answer may depend on everything that happened before (the events so
  far), so that two calls with the same arguments may be answered differently.
  \<open>sql.Open\<close> returns a handle or an error, never both; \<open>db.Ping\<close> and \<open>db.Exec\<close>
  return an error or nil (the \<open>sql.Result\<close> of \<open>Exec\<close> is discarded by the code).
\<close>

record sql_world =
  sql_Open :: "event list \<Rightarrow> string \<Rightarrow> string \<Rightarrow> go_error + db"
  db_Ping :: "event list \<Rightarrow> db \<Rightarrow> go_error option"
  db_Exec :: "event list \<Rightarrow> db \<Rightarrow> string \<Rightarrow> go_error option"

text \<open>
  What a call of \<open>OpenDBFromDBConf\<close> ends with: the returned pair
  \<open>(*sql.DB, error)\<close>, each of which may be nil, or a run-time panic (a method called
  on a nil \<open>*sql.DB\<close>).
\<close>

datatype outcome = Return "db option" "go_error option" | Panic

section \<open>\<open>OpenDBFromDBConf\<close>\<close>

text \<open>
  Lines 143-150: the schema statement and the final return, run on the events so far
  and on the current value of the variable \<open>db\<close>.
\<close>

definition apply_schema ::
  "sql_world \<Rightarrow> DBConf \<Rightarrow> db option \<Rightarrow> event list \<Rightarrow> outcome \<times> event list" where
  "apply_schema w conf db tr =
     (if Name (Driver conf) = ''postgres'' \<and> PgSchema conf \<noteq> []
      then (case db of
              None \<Rightarrow> (Panic, tr)
            | Some d \<Rightarrow>
                (let stmt = ''SET search_path TO '' @ PgSchema conf;
                     r = db_Exec w tr d stmt;
                     tr' = tr @ [Exec d stmt r]
                 in case r of
                      Some e \<Rightarrow> (Return None (Some e), tr')
                    | None \<Rightarrow> (Return db None, tr')))
      else (Return db None, tr))"

text \<open>
  \<open>defer dbm.Close()\<close>: whatever the rest of the function ends with (a return or a
  panic), the deferred call runs after it and before the caller continues.
\<close>

definition defer_Close :: "db \<Rightarrow> outcome \<times> event list \<Rightarrow> outcome \<times> event list" where
  "defer_Close dbm r = (fst r, snd r @ [Close dbm])"

text \<open>
  Lines 122-139: the body of \<open>if pg_err.Code == "3D000"\<close>, followed, on the path that
  falls out of it, by lines 143-150.
\<close>

definition create_database ::
  "sql_world \<Rightarrow> DBConf \<Rightarrow> event list \<Rightarrow> outcome \<times> event list" where
  "create_database w conf tr1 =
     (let tr2 = tr1 @ [Println ''Database does not exist. Trying to create it.''];
          m = FindStringSubmatch (OpenStr (Driver conf))
      in if m \<noteq> None \<and> length (the m) = 2 then
           (let dbname = the m ! 1;
                masterConnection =
                  ReplaceAllLiteralString (OpenStr (Driver conf)) ''dbname=postgres'';
                rm = sql_Open w tr2 (Name (Driver conf)) masterConnection;
                tr3 = tr2 @ [SqlOpen (Name (Driver conf)) masterConnection rm]
            in case rm of
                 Inl e \<Rightarrow> (Return None (Some e), tr3)
               | Inr dbm \<Rightarrow>
                   defer_Close dbm
                     (let stmt = ''CREATE DATABASE '' @ dbname;
                          rc = db_Exec w tr3 dbm stmt;
                          tr4 = tr3 @ [Exec dbm stmt rc]
                      in case rc of
                           Some e \<Rightarrow> (Return None (Some e), tr4)
                         | None \<Rightarrow>
                             (let rr = sql_Open w tr4 (Name (Driver conf)) (OpenStr (Driver conf));
                                  tr5 = tr4 @ [SqlOpen (Name (Driver conf)) (OpenStr (Driver conf)) rr]
                              in apply_schema w conf
                                   (case rr of Inl e \<Rightarrow> None | Inr d \<Rightarrow> Some d) tr5)))
         else (Return None (Some (ErrorString ''Can't create database with unknown name'')), tr2))"

definition OpenDBFromDBConf :: "sql_world \<Rightarrow> DBConf \<Rightarrow> outcome \<times> event list" where
  "OpenDBFromDBConf w conf =
     (let r0 = sql_Open w [] (Name (Driver conf)) (OpenStr (Driver conf));
          tr0 = [SqlOpen (Name (Driver conf)) (OpenStr (Driver conf)) r0]
      in case r0 of
           Inl e \<Rightarrow> (Return None (Some e), tr0)
         | Inr db \<Rightarrow>
             (let err = db_Ping w tr0 db;
                  tr1 = tr0 @ [Ping db err]
              in case err of
                   Some (PqError code msg) \<Rightarrow>
                     if code = ''3D000'' then create_database w conf tr1
                     else apply_schema w conf (Some db) tr1
                 | _ \<Rightarrow> apply_schema w conf (Some db) tr1))"

section \<open>Facts about the pattern\<close>

lemma match_here_SomeD:
  assumes "match_here s = Some (v, rest)"
  shows "s = ''dbname='' @ v @ rest" and "v \<noteq> []" and "\<forall>c\<in>set v. c \<noteq> CHR '' ''"
    and "rest = [] \<or> hd rest = CHR '' ''"
proof -
  from assms have t7: "take 7 s = ''dbname=''"
    and v: "v = takeWhile not_space (drop 7 s)"
    and r: "rest = dropWhile not_space (drop 7 s)"
    and ne: "v \<noteq> []"
    by (auto simp: match_here_def split: if_splits)
  have "s = take 7 s @ drop 7 s"
    by simp
  also have "drop 7 s = v @ rest"
    unfolding v r by simp
  finally show "s = ''dbname='' @ v @ rest"
    using t7 by simp
  show "v \<noteq> []"
    by (rule ne)
  show "\<forall>c\<in>set v. c \<noteq> CHR '' ''"
    unfolding v using set_takeWhileD not_space_def by metis
  show "rest = [] \<or> hd rest = CHR '' ''"
    unfolding r using hd_dropWhile [of not_space "drop 7 s"] by (auto simp: not_space_def)
qed

lemma match_here_SomeI:
  assumes "v \<noteq> []" and "\<forall>c\<in>set v. c \<noteq> CHR '' ''" and "rest = [] \<or> hd rest = CHR '' ''"
  shows "match_here (''dbname='' @ v @ rest) = Some (v, rest)"
proof -
  have tw: "takeWhile not_space (v @ rest) = v"
  proof (cases rest)
    case Nil
    with assms(2) show ?thesis by (simp add: not_space_def)
  next
    case (Cons c cs)
    with assms(3) have "\<not> not_space c" by (simp add: not_space_def)
    with Cons assms(2) show ?thesis
      by (simp add: takeWhile_tail not_space_def)
  qed
  have dw: "dropWhile not_space (v @ rest) = rest"
    using tw takeWhile_dropWhile_id [of not_space "v @ rest"] by (metis same_append_eq)
  show ?thesis
    using assms(1) by (simp add: match_here_def tw dw)
qed

lemma match_here_None_iff:
  "match_here s = None \<longleftrightarrow> \<not> (\<exists>c rest. s = ''dbname='' @ c # rest \<and> c \<noteq> CHR '' '')"
proof
  assume n: "match_here s = None"
  show "\<not> (\<exists>c rest. s = ''dbname='' @ c # rest \<and> c \<noteq> CHR '' '')"
  proof
    assume "\<exists>c rest. s = ''dbname='' @ c # rest \<and> c \<noteq> CHR '' ''"
    then obtain c rest where "s = ''dbname='' @ c # rest" and "c \<noteq> CHR '' ''"
      by blast
    then have "match_here s \<noteq> None"
      by (simp add: match_here_def not_space_def)
    with n show False by simp
  qed
next
  assume a: "\<not> (\<exists>c rest. s = ''dbname='' @ c # rest \<and> c \<noteq> CHR '' '')"
  show "match_here s = None"
  proof (rule ccontr)
    assume "match_here s \<noteq> None"
    then obtain v rest where m: "match_here s = Some (v, rest)"
      by auto
    from match_here_SomeD [OF m] obtain c v' where "v = c # v'" and "c \<noteq> CHR '' ''"
      and "s = ''dbname='' @ v @ rest"
      by (cases v) auto
    with a show False by auto
  qed
qed

lemma FindStringSubmatch_None_iff:
  "FindStringSubmatch s = None \<longleftrightarrow>
     \<not> (\<exists>pre c rest. s = pre @ ''dbname='' @ c # rest \<and> c \<noteq> CHR '' '')"
proof (induction s)
  case Nil
  have "match_here [] = None"
    by (simp add: match_here_def)
  then show ?case by (simp add: FindStringSubmatch.simps [of "[]"])
next
  case (Cons x xs)
  show ?case
  proof (cases "match_here (x # xs)")
    case (Some p)
    then obtain v rest where m: "match_here (x # xs) = Some (v, rest)"
      by (cases p) auto
    from match_here_SomeD [OF m] obtain c v' where "v = c # v'" and "c \<noteq> CHR '' ''"
      and "x # xs = ''dbname='' @ v @ rest"
      by (cases v) auto
    then have "\<exists>pre c rest. x # xs = pre @ ''dbname='' @ c # rest \<and> c \<noteq> CHR '' ''"
      by (intro exI [of _ "[]"] exI [of _ c] exI [of _ "v' @ rest"]) simp
    with m show ?thesis by (simp add: FindStringSubmatch.simps [of "x # xs"])
  next
    case None
    have "(\<exists>pre c rest. x # xs = pre @ ''dbname='' @ c # rest \<and> c \<noteq> CHR '' '') \<longleftrightarrow>
          (\<exists>pre c rest. xs = pre @ ''dbname='' @ c # rest \<and> c \<noteq> CHR '' '')"
    proof
      assume "\<exists>pre c rest. x # xs = pre @ ''dbname='' @ c # rest \<and> c \<noteq> CHR '' ''"
      then obtain pre c rest where e: "x # xs = pre @ ''dbname='' @ c # rest" and c: "c \<noteq> CHR '' ''"
        by blast
      show "\<exists>pre c rest. xs = pre @ ''dbname='' @ c # rest \<and> c \<noteq> CHR '' ''"
      proof (cases pre)
        case Nil
        with e c None show ?thesis
          using match_here_None_iff [of "x # xs"] by auto
      next
        case (Cons y ys)
        with e have "xs = ys @ ''dbname='' @ c # rest" by simp
        with c show ?thesis by blast
      qed
    next
      assume "\<exists>pre c rest. xs = pre @ ''dbname='' @ c # rest \<and> c \<noteq> CHR '' ''"
      then obtain pre c rest where "xs = pre @ ''dbname='' @ c # rest" and c: "c \<noteq> CHR '' ''"
        by blast
      then have "x # xs = (x # pre) @ ''dbname='' @ c # rest" by simp
      with c show "\<exists>pre c rest. x # xs = pre @ ''dbname='' @ c # rest \<and> c \<noteq> CHR '' ''"
        by blast
    qed
    with None Cons.IH show ?thesis by (simp add: FindStringSubmatch.simps [of "x # xs"])
  qed
qed

section \<open>Provisioning without a database name\<close>

text \<open>
  A server on which the target database is missing and whose connection string names
  no database: the first open succeeds, the ping is answered with the Postgres error
  \<open>3D000\<close>.
\<close>

definition world_missing_db :: sql_world where
  "world_missing_db =
     \<lparr> sql_Open = (\<lambda>h name dsn. Inr (length h)),
       db_Ping = (\<lambda>h d. Some (PqError ''3D000'' ''database does not exist'')),
       db_Exec = (\<lambda>h d stmt. None) \<rparr>"

definition conf_no_dbname :: DBConf where
  "conf_no_dbname =
     \<lparr> MigrationsDir = ''db/migrations'', Env = ''development'',
       Driver = \<lparr> Name = ''postgres'', OpenStr = ''host=localhost user=goose'',
                  Import = ''github.com/lib/pq'', Dialect = Some PostgresDialect \<rparr>,
       PgSchema = ''tenant_a'' \<rparr>"

text \<open>
  C4. When the first open succeeds, the ping fails with the Postgres error code
  \<open>3D000\<close>, and no part of the connection string is \<open>dbname=\<close> followed by a character
  other than a space, \<open>OpenDBFromDBConf\<close> returns no handle and the error
  "Can't create database with unknown name". The only events are the first open, the
  ping and the printed notice: no maintenance connection is opened and no
  \<open>CREATE DATABASE\<close> statement is executed.
\<close>

theorem no_dbname_no_provisioning:
  assumes "sql_Open w [] (Name (Driver conf)) (OpenStr (Driver conf)) = Inr db"
    and "db_Ping w [SqlOpen (Name (Driver conf)) (OpenStr (Driver conf)) (Inr db)] db
           = Some (PqError ''3D000'' msg)"
    and "\<not> (\<exists>pre c rest. OpenStr (Driver conf) = pre @ ''dbname='' @ c # rest \<and> c \<noteq> CHR '' '')"
  shows "OpenDBFromDBConf w conf =
           (Return None (Some (ErrorString ''Can't create database with unknown name'')),
            [SqlOpen (Name (Driver conf)) (OpenStr (Driver conf)) (Inr db),
             Ping db (Some (PqError ''3D000'' msg)),
             Println ''Database does not exist. Trying to create it.''])"
proof -
  from assms(3) have "FindStringSubmatch (OpenStr (Driver conf)) = None"
    by (rule iffD2 [OF FindStringSubmatch_None_iff])
  then have "create_database w conf
               [SqlOpen (Name (Driver conf)) (OpenStr (Driver conf)) (Inr db),
                Ping db (Some (PqError ''3D000'' msg))]
             = (Return None (Some (ErrorString ''Can't create database with unknown name'')),
                [SqlOpen (Name (Driver conf)) (OpenStr (Driver conf)) (Inr db),
                 Ping db (Some (PqError ''3D000'' msg)),
                 Println ''Database does not exist. Trying to create it.''])"
    by (simp add: create_database_def)
  with assms(1,2) show ?thesis
    by (simp add: OpenDBFromDBConf_def)
qed

lemma conf_no_dbname_no_match:
  "FindStringSubmatch (OpenStr (Driver conf_no_dbname)) = None"
  by (simp add: conf_no_dbname_def match_here_def FindStringSubmatch.simps)

theorem no_dbname_no_provisioning_witness:
  "OpenDBFromDBConf world_missing_db conf_no_dbname =
     (Return None (Some (ErrorString ''Can't create database with unknown name'')),
      [SqlOpen ''postgres'' ''host=localhost user=goose'' (Inr 0),
       Ping 0 (Some (PqError ''3D000'' ''database does not exist'')),
       Println ''Database does not exist. Trying to create it.''])"
proof -
  have h1: "sql_Open world_missing_db [] (Name (Driver conf_no_dbname))
              (OpenStr (Driver conf_no_dbname)) = Inr 0"
    by (simp add: world_missing_db_def)
  have h2: "db_Ping world_missing_db
              [SqlOpen (Name (Driver conf_no_dbname)) (OpenStr (Driver conf_no_dbname)) (Inr 0)] 0
            = Some (PqError ''3D000'' ''database does not exist'')"
    by (simp add: world_missing_db_def)
  have h3: "\<not> (\<exists>pre c rest. OpenStr (Driver conf_no_dbname) = pre @ ''dbname='' @ c # rest
              \<and> c \<noteq> CHR '' '')"
    by (rule iffD1 [OF FindStringSubmatch_None_iff conf_no_dbname_no_match])
  from no_dbname_no_provisioning [OF h1 h2 h3] show ?thesis
    by (simp add: conf_no_dbname_def)
qed

section \<open>The schema statement\<close>

text \<open>The \<open>Exec\<close> events of a run whose statement sets the search path of \<open>conf\<close>.\<close>

fun is_search_path_exec :: "DBConf \<Rightarrow> event \<Rightarrow> bool" where
  "is_search_path_exec conf (Exec d stmt r) = (stmt = ''SET search_path TO '' @ PgSchema conf)"
| "is_search_path_exec conf _ = False"

definition search_path_execs :: "DBConf \<Rightarrow> event list \<Rightarrow> event list" where
  "search_path_execs conf tr = filter (is_search_path_exec conf) tr"

lemma search_path_execs_append:
  "search_path_execs conf (xs @ ys) = search_path_execs conf xs @ search_path_execs conf ys"
  by (simp add: search_path_execs_def)

lemma search_path_execs_simps:
  "search_path_execs conf [] = []"
  "search_path_execs conf (SqlOpen n d r # tr) = search_path_execs conf tr"
  "search_path_execs conf (Ping h p # tr) = search_path_execs conf tr"
  "search_path_execs conf (Close h # tr) = search_path_execs conf tr"
  "search_path_execs conf (Println s # tr) = search_path_execs conf tr"
  "search_path_execs conf (Exec h stmt e # tr) =
     (if stmt = ''SET search_path TO '' @ PgSchema conf
      then Exec h stmt e # search_path_execs conf tr else search_path_execs conf tr)"
  by (simp_all add: search_path_execs_def)

lemma apply_schema_success:
  assumes "fst (apply_schema w conf db tr) = Return (Some h) None"
  shows "db = Some h"
    and "snd (apply_schema w conf db tr) =
           tr @ (if Name (Driver conf) = ''postgres'' \<and> PgSchema conf \<noteq> []
                 then [Exec h (''SET search_path TO '' @ PgSchema conf) None] else [])"
  using assms
  by (auto simp: apply_schema_def Let_def split: if_splits option.splits)

lemma apply_schema_failure:
  assumes "Exec d (''SET search_path TO '' @ PgSchema conf) (Some e)
             \<in> set (snd (apply_schema w conf db tr))"
    and "search_path_execs conf tr = []"
  shows "fst (apply_schema w conf db tr) = Return None (Some e)"
proof -
  have "Exec d (''SET search_path TO '' @ PgSchema conf) (Some e) \<notin> set tr"
    using assms(2) by (auto simp: search_path_execs_def filter_empty_conv)
  with assms(1) show ?thesis
    by (auto simp: apply_schema_def Let_def split: if_splits option.splits)
qed

lemma create_database_success:
  assumes "fst (create_database w conf tr1) = Return (Some h) None"
    and "search_path_execs conf tr1 = []"
  shows "search_path_execs conf (snd (create_database w conf tr1)) =
           (if Name (Driver conf) = ''postgres'' \<and> PgSchema conf \<noteq> []
            then [Exec h (''SET search_path TO '' @ PgSchema conf) None] else [])"
proof -
  let ?n = "Name (Driver conf)" and ?o = "OpenStr (Driver conf)"
  let ?tr2 = "tr1 @ [Println ''Database does not exist. Trying to create it.'']"
  let ?mc = "ReplaceAllLiteralString ?o ''dbname=postgres''"
  let ?m = "FindStringSubmatch ?o"
  from assms(1) have m: "?m \<noteq> None \<and> length (the ?m) = 2"
    by (auto simp: create_database_def Let_def split: if_splits)
  from assms(1) m obtain dbm where rm: "sql_Open w ?tr2 ?n ?mc = Inr dbm"
    by (cases "sql_Open w ?tr2 ?n ?mc") (auto simp: create_database_def Let_def)
  let ?tr3 = "?tr2 @ [SqlOpen ?n ?mc (Inr dbm)]"
  let ?stmt = "''CREATE DATABASE '' @ the ?m ! 1"
  from assms(1) m rm have rc: "db_Exec w ?tr3 dbm ?stmt = None"
    by (cases "db_Exec w ?tr3 dbm ?stmt")
       (auto simp: create_database_def defer_Close_def Let_def)
  let ?tr4 = "?tr3 @ [Exec dbm ?stmt None]"
  let ?rr = "sql_Open w ?tr4 ?n ?o"
  let ?tr5 = "?tr4 @ [SqlOpen ?n ?o ?rr]"
  let ?db = "case ?rr of Inl e \<Rightarrow> None | Inr d \<Rightarrow> Some d"
  have cd: "create_database w conf tr1 = defer_Close dbm (apply_schema w conf ?db ?tr5)"
    using m rm rc by (simp add: create_database_def Let_def)
  with assms(1) have "fst (apply_schema w conf ?db ?tr5) = Return (Some h) None"
    by (simp add: defer_Close_def)
  from apply_schema_success(2) [OF this]
  have "snd (create_database w conf tr1) =
          ?tr5 @ (if ?n = ''postgres'' \<and> PgSchema conf \<noteq> []
                  then [Exec h (''SET search_path TO '' @ PgSchema conf) None] else [])
               @ [Close dbm]"
    by (simp add: cd defer_Close_def)
  then show ?thesis
    using assms(2) by (simp add: search_path_execs_append search_path_execs_simps)
qed

lemma create_database_failure:
  assumes "Exec d (''SET search_path TO '' @ PgSchema conf) (Some e)
             \<in> set (snd (create_database w conf tr1))"
    and "search_path_execs conf tr1 = []"
  shows "fst (create_database w conf tr1) = Return None (Some e)"
proof -
  let ?n = "Name (Driver conf)" and ?o = "OpenStr (Driver conf)"
  let ?tr2 = "tr1 @ [Println ''Database does not exist. Trying to create it.'']"
  let ?mc = "ReplaceAllLiteralString ?o ''dbname=postgres''"
  let ?m = "FindStringSubmatch ?o"
  have notin: "Exec d (''SET search_path TO '' @ PgSchema conf) (Some e) \<notin> set tr1"
    using assms(2) by (auto simp: search_path_execs_def filter_empty_conv)
  from assms(1) notin have m: "?m \<noteq> None \<and> length (the ?m) = 2"
    by (auto simp: create_database_def Let_def split: if_splits)
  from assms(1) m notin obtain dbm where rm: "sql_Open w ?tr2 ?n ?mc = Inr dbm"
    by (cases "sql_Open w ?tr2 ?n ?mc") (auto simp: create_database_def Let_def)
  let ?tr3 = "?tr2 @ [SqlOpen ?n ?mc (Inr dbm)]"
  let ?stmt = "''CREATE DATABASE '' @ the ?m ! 1"
  from assms(1) m rm notin have rc: "db_Exec w ?tr3 dbm ?stmt = None"
    by (cases "db_Exec w ?tr3 dbm ?stmt")
       (auto simp: create_database_def defer_Close_def Let_def)
  let ?tr4 = "?tr3 @ [Exec dbm ?stmt None]"
  let ?rr = "sql_Open w ?tr4 ?n ?o"
  let ?tr5 = "?tr4 @ [SqlOpen ?n ?o ?rr]"
  let ?db = "case ?rr of Inl e \<Rightarrow> None | Inr d \<Rightarrow> Some d"
  have cd: "create_database w conf tr1 = defer_Close dbm (apply_schema w conf ?db ?tr5)"
    using m rm rc by (simp add: create_database_def Let_def)
  have clean: "search_path_execs conf ?tr5 = []"
    using assms(2) by (simp add: search_path_execs_append search_path_execs_simps)
  from assms(1) have "Exec d (''SET search_path TO '' @ PgSchema conf) (Some e)
                        \<in> set (snd (apply_schema w conf ?db ?tr5))"
    by (simp add: cd defer_Close_def)
  from apply_schema_failure [OF this clean] show ?thesis
    by (simp add: cd defer_Close_def)
qed

text \<open>
  C7. When \<open>OpenDBFromDBConf\<close> returns a handle and no error, the statements of the
  run that are \<open>SET search_path TO\<close> followed by the schema, verbatim, are: exactly one,
  executed without error on the returned handle, if the driver name is \<open>postgres\<close> and
  the schema is not empty; none otherwise. And when that statement was executed and
  failed, the function returns its error and no handle.
\<close>

theorem search_path_set_exactly_once:
  "(fst (OpenDBFromDBConf w conf) = Return (Some h) None \<longrightarrow>
      search_path_execs conf (snd (OpenDBFromDBConf w conf)) =
        (if Name (Driver conf) = ''postgres'' \<and> PgSchema conf \<noteq> []
         then [Exec h (''SET search_path TO '' @ PgSchema conf) None] else []))
   \<and> (Exec d (''SET search_path TO '' @ PgSchema conf) (Some e)
          \<in> set (snd (OpenDBFromDBConf w conf)) \<longrightarrow>
        fst (OpenDBFromDBConf w conf) = Return None (Some e))"
proof -
  let ?n = "Name (Driver conf)" and ?o = "OpenStr (Driver conf)"
  show ?thesis
  proof (cases "sql_Open w [] ?n ?o")
    case (Inl err)
    then show ?thesis
      by (simp add: OpenDBFromDBConf_def)
  next
    case (Inr db)
    let ?tr0 = "[SqlOpen ?n ?o (Inr db)]"
    let ?tr1 = "?tr0 @ [Ping db (db_Ping w ?tr0 db)]"
    have clean: "search_path_execs conf ?tr1 = []"
      by (simp add: search_path_execs_simps)
    show ?thesis
    proof (cases "\<exists>msg. db_Ping w ?tr0 db = Some (PqError ''3D000'' msg)")
      case True
      with Inr have eq: "OpenDBFromDBConf w conf = create_database w conf ?tr1"
        by (auto simp: OpenDBFromDBConf_def Let_def)
      show ?thesis
        unfolding eq using create_database_success [OF _ clean] create_database_failure [OF _ clean]
        by blast
    next
      case False
      with Inr have other: "OpenDBFromDBConf w conf = apply_schema w conf (Some db) ?tr1"
        by (auto simp: OpenDBFromDBConf_def Let_def split: option.splits go_error.splits)
      have a: "fst (apply_schema w conf (Some db) ?tr1) = Return (Some h) None \<Longrightarrow>
               search_path_execs conf (snd (apply_schema w conf (Some db) ?tr1)) =
                 (if ?n = ''postgres'' \<and> PgSchema conf \<noteq> []
                  then [Exec h (''SET search_path TO '' @ PgSchema conf) None] else [])"
        using apply_schema_success(2) [of w conf "Some db" ?tr1 h]
        by (simp add: search_path_execs_append search_path_execs_simps)
      show ?thesis
        unfolding other using a apply_schema_failure [OF _ clean] by blast
    qed
  qed
qed


text \<open>
  A reachable server with the database in place, one on which the schema statement is
  refused, and a Postgres configuration with the schema \<open>tenant_a\<close>.
\<close>

definition world_ready :: sql_world where
  "world_ready =
     \<lparr> sql_Open = (\<lambda>h name dsn. Inr (length h)),
       db_Ping = (\<lambda>h d. None),
       db_Exec = (\<lambda>h d stmt. None) \<rparr>"

definition world_schema_refused :: sql_world where
  "world_schema_refused =
     \<lparr> sql_Open = (\<lambda>h name dsn. Inr (length h)),
       db_Ping = (\<lambda>h d. None),
       db_Exec = (\<lambda>h d stmt. Some (PqError ''3F000'' ''invalid schema name'')) \<rparr>"

definition conf_tenant :: DBConf where
  "conf_tenant =
     \<lparr> MigrationsDir = ''db/migrations'', Env = ''development'',
       Driver = \<lparr> Name = ''postgres'', OpenStr = ''host=localhost dbname=app'',
                  Import = ''github.com/lib/pq'', Dialect = Some PostgresDialect \<rparr>,
       PgSchema = ''tenant_a'' \<rparr>"

lemma run_ready_tenant:
  "OpenDBFromDBConf world_ready conf_tenant =
     (Return (Some 0) None,
      [SqlOpen ''postgres'' ''host=localhost dbname=app'' (Inr 0), Ping 0 None,
       Exec 0 ''SET search_path TO tenant_a'' None])"
  by (simp add: OpenDBFromDBConf_def apply_schema_def world_ready_def conf_tenant_def Let_def)

lemma run_schema_refused_tenant:
  "OpenDBFromDBConf world_schema_refused conf_tenant =
     (Return None (Some (PqError ''3F000'' ''invalid schema name'')),
      [SqlOpen ''postgres'' ''host=localhost dbname=app'' (Inr 0), Ping 0 None,
       Exec 0 ''SET search_path TO tenant_a'' (Some (PqError ''3F000'' ''invalid schema name''))])"
  by (simp add: OpenDBFromDBConf_def apply_schema_def world_schema_refused_def conf_tenant_def Let_def)

theorem search_path_set_exactly_once_witness:
  "fst (OpenDBFromDBConf world_ready conf_tenant) = Return (Some 0) None
   \<and> search_path_execs conf_tenant (snd (OpenDBFromDBConf world_ready conf_tenant)) =
       [Exec 0 ''SET search_path TO tenant_a'' None]
   \<and> Exec 0 ''SET search_path TO tenant_a'' (Some (PqError ''3F000'' ''invalid schema name''))
       \<in> set (snd (OpenDBFromDBConf world_schema_refused conf_tenant))
   \<and> fst (OpenDBFromDBConf world_schema_refused conf_tenant) =
       Return None (Some (PqError ''3F000'' ''invalid schema name''))"
proof -
  have h1: "fst (OpenDBFromDBConf world_ready conf_tenant) = Return (Some 0) None"
    by (simp add: run_ready_tenant)
  have h2: "Exec 0 (''SET search_path TO '' @ PgSchema conf_tenant)
              (Some (PqError ''3F000'' ''invalid schema name''))
            \<in> set (snd (OpenDBFromDBConf world_schema_refused conf_tenant))"
    using run_schema_refused_tenant by (simp add: conf_tenant_def)
  from search_path_set_exactly_once [of world_ready conf_tenant 0, THEN conjunct1, THEN mp, OF h1]
  have c1: "search_path_execs conf_tenant (snd (OpenDBFromDBConf world_ready conf_tenant)) =
              [Exec 0 ''SET search_path TO tenant_a'' None]"
    by (simp add: conf_tenant_def)
  from search_path_set_exactly_once [of world_schema_refused conf_tenant _ 0
         "PqError ''3F000'' ''invalid schema name''", THEN conjunct2, THEN mp, OF h2]
  have c2: "fst (OpenDBFromDBConf world_schema_refused conf_tenant) =
              Return None (Some (PqError ''3F000'' ''invalid schema name''))" .
  from h1 c1 h2 c2 show ?thesis
    by (simp add: conf_tenant_def)
qed


section \<open>The maintenance connection\<close>

lemma FindStringSubmatch_Some:
  "FindStringSubmatch s = Some m \<Longrightarrow> \<exists>v. m = [''dbname='' @ v, v]"
proof (induction s)
  case Nil
  then show ?case
    by (simp add: match_here_def FindStringSubmatch.simps [of "[]"])
next
  case (Cons x xs)
  then show ?case
    by (cases "match_here (x # xs)") (auto simp: FindStringSubmatch.simps [of "x # xs"])
qed

lemma FindStringSubmatch_length:
  "FindStringSubmatch s \<noteq> None \<Longrightarrow> length (the (FindStringSubmatch s)) = 2"
  using FindStringSubmatch_Some [of s] by fastforce

text \<open>
  Servers on which the database is missing: one that refuses \<open>CREATE DATABASE\<close>, and
  one on which the third \<open>sql.Open\<close> of the run (the reopen) fails.
\<close>

definition world_create_refused :: sql_world where
  "world_create_refused =
     \<lparr> sql_Open = (\<lambda>h name dsn. Inr (length h)),
       db_Ping = (\<lambda>h d. Some (PqError ''3D000'' ''database does not exist'')),
       db_Exec = (\<lambda>h d stmt. Some (PqError ''42501'' ''permission denied'')) \<rparr>"

definition world_reopen_fails :: sql_world where
  "world_reopen_fails =
     \<lparr> sql_Open = (\<lambda>h name dsn. if length h < 5 then Inr (length h)
                                 else Inl (LibError ''sql: open failed'')),
       db_Ping = (\<lambda>h d. Some (PqError ''3D000'' ''database does not exist'')),
       db_Exec = (\<lambda>h d stmt. None) \<rparr>"

lemma conf_tenant_match:
  "FindStringSubmatch (OpenStr (Driver conf_tenant)) = Some [''dbname=app'', ''app'']"
  by (simp add: conf_tenant_def match_here_def not_space_def FindStringSubmatch.simps
      ReplaceAllLiteralString.simps)

lemma conf_tenant_master:
  "ReplaceAllLiteralString (OpenStr (Driver conf_tenant)) ''dbname=postgres''
     = ''host=localhost dbname=postgres''"
  by (simp add: conf_tenant_def match_here_def not_space_def FindStringSubmatch.simps
      ReplaceAllLiteralString.simps)

lemma run_missing_db_tenant:
  "OpenDBFromDBConf world_missing_db conf_tenant =
     (Return (Some 5) None,
      [SqlOpen ''postgres'' ''host=localhost dbname=app'' (Inr 0),
       Ping 0 (Some (PqError ''3D000'' ''database does not exist'')),
       Println ''Database does not exist. Trying to create it.'',
       SqlOpen ''postgres'' ''host=localhost dbname=postgres'' (Inr 3),
       Exec 3 ''CREATE DATABASE app'' None,
       SqlOpen ''postgres'' ''host=localhost dbname=app'' (Inr 5),
       Exec 5 ''SET search_path TO tenant_a'' None,
       Close 3])"
  using conf_tenant_match conf_tenant_master
  by (simp add: OpenDBFromDBConf_def create_database_def apply_schema_def defer_Close_def
      world_missing_db_def Let_def) (simp add: conf_tenant_def)

lemma run_create_refused_tenant:
  "OpenDBFromDBConf world_create_refused conf_tenant =
     (Return None (Some (PqError ''42501'' ''permission denied'')),
      [SqlOpen ''postgres'' ''host=localhost dbname=app'' (Inr 0),
       Ping 0 (Some (PqError ''3D000'' ''database does not exist'')),
       Println ''Database does not exist. Trying to create it.'',
       SqlOpen ''postgres'' ''host=localhost dbname=postgres'' (Inr 3),
       Exec 3 ''CREATE DATABASE app'' (Some (PqError ''42501'' ''permission denied'')),
       Close 3])"
  using conf_tenant_match conf_tenant_master
  by (simp add: OpenDBFromDBConf_def create_database_def apply_schema_def defer_Close_def
      world_create_refused_def Let_def) (simp add: conf_tenant_def)

lemma run_reopen_fails_tenant:
  "OpenDBFromDBConf world_reopen_fails conf_tenant =
     (Panic,
      [SqlOpen ''postgres'' ''host=localhost dbname=app'' (Inr 0),
       Ping 0 (Some (PqError ''3D000'' ''database does not exist'')),
       Println ''Database does not exist. Trying to create it.'',
       SqlOpen ''postgres'' ''host=localhost dbname=postgres'' (Inr 3),
       Exec 3 ''CREATE DATABASE app'' None,
       SqlOpen ''postgres'' ''host=localhost dbname=app'' (Inl (LibError ''sql: open failed'')),
       Close 3])"
  using conf_tenant_match conf_tenant_master
  by (simp add: OpenDBFromDBConf_def create_database_def apply_schema_def defer_Close_def
      world_reopen_fails_def Let_def) (simp add: conf_tenant_def)

text \<open>
  C8. When provisioning is reached (the first open succeeds, the ping fails with the
  Postgres error code \<open>3D000\<close>, the connection string has a database name) and the
  maintenance connection is opened successfully, the last event of the run is the
  close of the maintenance connection, whatever \<open>CREATE DATABASE\<close>, the reopen and
  the schema statement are answered with, and whether the run ends in a return or in
  a panic.
\<close>

theorem maintenance_connection_closed:
  assumes "sql_Open w [] (Name (Driver conf)) (OpenStr (Driver conf)) = Inr db"
    and "db_Ping w [SqlOpen (Name (Driver conf)) (OpenStr (Driver conf)) (Inr db)] db
           = Some (PqError ''3D000'' msg)"
    and "FindStringSubmatch (OpenStr (Driver conf)) \<noteq> None"
    and "sql_Open w
           [SqlOpen (Name (Driver conf)) (OpenStr (Driver conf)) (Inr db),
            Ping db (Some (PqError ''3D000'' msg)),
            Println ''Database does not exist. Trying to create it.'']
           (Name (Driver conf))
           (ReplaceAllLiteralString (OpenStr (Driver conf)) ''dbname=postgres'') = Inr dbm"
  shows "last (snd (OpenDBFromDBConf w conf)) = Close dbm"
proof -
  let ?tr1 = "[SqlOpen (Name (Driver conf)) (OpenStr (Driver conf)) (Inr db),
               Ping db (Some (PqError ''3D000'' msg))]"
  from assms(1,2) have eq: "OpenDBFromDBConf w conf = create_database w conf ?tr1"
    by (simp add: OpenDBFromDBConf_def)
  from assms(3) have len: "length (the (FindStringSubmatch (OpenStr (Driver conf)))) = 2"
    by (rule FindStringSubmatch_length)
  have closed: "last (snd (defer_Close dbm r)) = Close dbm" for r
    by (simp add: defer_Close_def)
  from assms(3,4) len have "last (snd (create_database w conf ?tr1)) = Close dbm"
    by (simp add: create_database_def Let_def closed)
  then show ?thesis
    by (simp only: eq)
qed

theorem maintenance_connection_closed_witness:
  "last (snd (OpenDBFromDBConf world_missing_db conf_tenant)) = Close 3
   \<and> last (snd (OpenDBFromDBConf world_create_refused conf_tenant)) = Close 3
   \<and> last (snd (OpenDBFromDBConf world_reopen_fails conf_tenant)) = Close 3
   \<and> fst (OpenDBFromDBConf world_missing_db conf_tenant) = Return (Some 5) None
   \<and> fst (OpenDBFromDBConf world_create_refused conf_tenant)
       = Return None (Some (PqError ''42501'' ''permission denied''))
   \<and> fst (OpenDBFromDBConf world_reopen_fails conf_tenant) = Panic"
proof -
  have m: "FindStringSubmatch (OpenStr (Driver conf_tenant)) \<noteq> None"
    by (simp add: conf_tenant_match)
  have a: "last (snd (OpenDBFromDBConf world_missing_db conf_tenant)) = Close 3"
    by (rule maintenance_connection_closed [where db = 0 and msg = "''database does not exist''"])
       (simp_all add: world_missing_db_def m)
  have b: "last (snd (OpenDBFromDBConf world_create_refused conf_tenant)) = Close 3"
    by (rule maintenance_connection_closed [where db = 0 and msg = "''database does not exist''"])
       (simp_all add: world_create_refused_def m)
  have c: "last (snd (OpenDBFromDBConf world_reopen_fails conf_tenant)) = Close 3"
    by (rule maintenance_connection_closed [where db = 0 and msg = "''database does not exist''"])
       (simp_all add: world_reopen_fails_def m)
  from a b c show ?thesis
    by (simp add: run_missing_db_tenant run_create_refused_tenant run_reopen_fails_tenant)
qed


section \<open>Errors of the ping and of the reopen\<close>

text \<open>
  A server that cannot be reached (the ping fails in the network layer), one that
  rejects the password (a Postgres error with another code than \<open>3D000\<close>), and a
  Postgres configuration without a schema.
\<close>

definition world_unreachable :: sql_world where
  "world_unreachable =
     \<lparr> sql_Open = (\<lambda>h name dsn. Inr (length h)),
       db_Ping = (\<lambda>h d. Some (LibError ''dial tcp 127.0.0.1:5432: connect: connection refused'')),
       db_Exec = (\<lambda>h d stmt. None) \<rparr>"

definition world_bad_password :: sql_world where
  "world_bad_password =
     \<lparr> sql_Open = (\<lambda>h name dsn. Inr (length h)),
       db_Ping = (\<lambda>h d. Some (PqError ''28P01'' ''password authentication failed'')),
       db_Exec = (\<lambda>h d stmt. None) \<rparr>"

definition conf_plain :: DBConf where
  "conf_plain =
     \<lparr> MigrationsDir = ''db/migrations'', Env = ''development'',
       Driver = \<lparr> Name = ''postgres'', OpenStr = ''host=localhost dbname=app'',
                  Import = ''github.com/lib/pq'', Dialect = Some PostgresDialect \<rparr>,
       PgSchema = [] \<rparr>"

text \<open>
  What lines 119-150 do with a ping error that is not the Postgres error \<open>3D000\<close>: the
  error is dropped and the schema step runs on the handle of the first open.
\<close>

lemma ping_error_dropped:
  assumes "sql_Open w [] (Name (Driver conf)) (OpenStr (Driver conf)) = Inr db"
    and "db_Ping w [SqlOpen (Name (Driver conf)) (OpenStr (Driver conf)) (Inr db)] db = Some e"
    and "\<forall>msg. e \<noteq> PqError ''3D000'' msg"
  shows "OpenDBFromDBConf w conf =
           apply_schema w conf (Some db)
             [SqlOpen (Name (Driver conf)) (OpenStr (Driver conf)) (Inr db), Ping db (Some e)]"
  using assms by (cases e) (simp_all add: OpenDBFromDBConf_def)

text \<open>
  C1. The claim fails on the code: with a ping that fails with a network error, or
  with a Postgres error of another code than \<open>3D000\<close>, and no schema to set,
  \<open>OpenDBFromDBConf\<close> returns the handle of the first open and a nil error.
\<close>

theorem ping_error_returns_handle:
  "OpenDBFromDBConf world_unreachable conf_plain =
     (Return (Some 0) None,
      [SqlOpen ''postgres'' ''host=localhost dbname=app'' (Inr 0),
       Ping 0 (Some (LibError ''dial tcp 127.0.0.1:5432: connect: connection refused''))])
   \<and> OpenDBFromDBConf world_bad_password conf_plain =
     (Return (Some 0) None,
      [SqlOpen ''postgres'' ''host=localhost dbname=app'' (Inr 0),
       Ping 0 (Some (PqError ''28P01'' ''password authentication failed''))])"
  by (simp add: OpenDBFromDBConf_def apply_schema_def world_unreachable_def
      world_bad_password_def conf_plain_def)









section \<open>Expansion of environment variables\<close>

text \<open>
  \<open>os.ExpandEnv(s)\<close> is \<open>os.Expand(s, os.Getenv)\<close> of Go's standard library; the
  process environment is a map from names to values, and \<open>os.Getenv\<close> answers the
  empty string for a name that is not set.
\<close>

definition os_Getenv :: "(string \<rightharpoonup> string) \<Rightarrow> string \<Rightarrow> string" where
  "os_Getenv environ key = (case environ key of Some v \<Rightarrow> v | None \<Rightarrow> [])"

definition isShellSpecialVar :: "char \<Rightarrow> bool" where
  "isShellSpecialVar c = (c \<in> set ''*#$@!?-0123456789'')"

definition isAlphaNum :: "char \<Rightarrow> bool" where
  "isAlphaNum c =
     (c = CHR ''_'' \<or> (48 \<le> (of_char c :: nat) \<and> (of_char c :: nat) \<le> 57)
      \<or> (97 \<le> (of_char c :: nat) \<and> (of_char c :: nat) \<le> 122)
      \<or> (65 \<le> (of_char c :: nat) \<and> (of_char c :: nat) \<le> 90))"

text \<open>
  \<open>getShellName s\<close>: the name that begins \<open>s\<close> (the text after a \<open>$\<close>) and the
  number of bytes it takes. \<open>Expand\<close> calls it on a non-empty string only.
\<close>

fun getShellName :: "string \<Rightarrow> string \<times> nat" where
  "getShellName [] = ([], 0)"
| "getShellName (c # cs) =
     (if c = CHR ''{'' then
        (if length (c # cs) > 2 \<and> isShellSpecialVar ((c # cs) ! 1) \<and> (c # cs) ! 2 = CHR ''}''
         then ([(c # cs) ! 1], 3)
         else (let body = takeWhile (\<lambda>x. x \<noteq> CHR ''}'') cs
               in if length body = length cs then ([], 1)
                  else if body = [] then ([], 2)
                  else (body, length body + 2)))
      else if isShellSpecialVar c then ([c], 1)
      else (let name = takeWhile isAlphaNum (c # cs) in (name, length name)))"

fun Expand :: "string \<Rightarrow> (string \<Rightarrow> string) \<Rightarrow> string" where
  "Expand [] mapping = []"
| "Expand (c # cs) mapping =
     (if c = CHR ''$'' \<and> cs \<noteq> [] then
        (if fst (getShellName cs) = [] \<and> snd (getShellName cs) > 0 then []
         else if fst (getShellName cs) = [] then [c]
         else mapping (fst (getShellName cs)))
        @ Expand (drop (snd (getShellName cs)) cs) mapping
      else c # Expand cs mapping)"

definition os_ExpandEnv :: "(string \<rightharpoonup> string) \<Rightarrow> string \<Rightarrow> string" where
  "os_ExpandEnv environ s = Expand s (os_Getenv environ)"

section \<open>\<open>NewDBConf\<close>\<close>

text \<open>
  What \<open>NewDBConf\<close> calls outside this file. A parsed configuration file is its
  \<open>Get\<close> method: the value at a dotted key, or an error. \<open>pq.ParseURL\<close> returns the
  DSN or an error. \<open>dialectByName\<close> returns a dialect or nil. \<open>fmt_v\<close> is the
  rendering of a \<open>DBDriver\<close> by the verb \<open>%v\<close>.
\<close>

type_synonym yaml_File = "string \<Rightarrow> go_error + string"

record config_world =
  filepath_Join :: "string \<Rightarrow> string \<Rightarrow> string"
  yaml_ReadFile :: "string \<Rightarrow> go_error + yaml_File"
  environ :: "string \<rightharpoonup> string"
  pq_ParseURL :: "string \<Rightarrow> go_error + string"
  dialectByName :: "string \<Rightarrow> SqlDialect option"
  fmt_v :: "DBDriver \<Rightarrow> string"

definition newDBDriver :: "string \<Rightarrow> string \<Rightarrow> DBDriver" where
  "newDBDriver name open' =
     (let d = \<lparr> Name = name, OpenStr = open', Import = [], Dialect = None \<rparr>
      in if name = ''postgres''
         then d \<lparr> Import := ''github.com/lib/pq'', Dialect := Some PostgresDialect \<rparr>
         else d)"

definition IsValid :: "DBDriver \<Rightarrow> bool" where
  "IsValid drv = (length (Import drv) > 0 \<and> Dialect drv \<noteq> None)"

text \<open>Lines 53-60: the open string after the automatic parse of Postgres URLs.\<close>

definition parse_postgres_url :: "config_world \<Rightarrow> string \<Rightarrow> string \<Rightarrow> string" where
  "parse_postgres_url cw drv open' =
     (if drv = ''postgres'' then
        (case pq_ParseURL cw open' of
           Inr parsedURL \<Rightarrow> if parsedURL \<noteq> [] then parsedURL else open'
         | Inl err \<Rightarrow> open')
      else open')"

text \<open>Lines 62-72: the driver of the registry with the overrides of the file.\<close>

definition override_driver :: "config_world \<Rightarrow> yaml_File \<Rightarrow> string \<Rightarrow> DBDriver \<Rightarrow> DBDriver" where
  "override_driver cw f env d =
     (let d1 = (case f (env @ ''.import'') of
                  Inr imprt \<Rightarrow> d \<lparr> Import := imprt \<rparr>
                | Inl err \<Rightarrow> d)
      in case f (env @ ''.dialect'') of
           Inr dialect \<Rightarrow> d1 \<lparr> Dialect := dialectByName cw dialect \<rparr>
         | Inl err \<Rightarrow> d1)"

definition NewDBConf :: "config_world \<Rightarrow> string \<Rightarrow> string \<Rightarrow> string \<Rightarrow> go_error + DBConf" where
  "NewDBConf cw p env pgschema =
     (let cfgFile = filepath_Join cw p ''dbconf.yml''
      in case yaml_ReadFile cw cfgFile of
           Inl err \<Rightarrow> Inl err
         | Inr f \<Rightarrow>
             (case f (env @ ''.driver'') of
                Inl err \<Rightarrow> Inl err
              | Inr drv0 \<Rightarrow>
                  (let drv = os_ExpandEnv (environ cw) drv0
                   in case f (env @ ''.open'') of
                        Inl err \<Rightarrow> Inl err
                      | Inr open0 \<Rightarrow>
                          (let open1 = os_ExpandEnv (environ cw) open0;
                               open2 = parse_postgres_url cw drv open1;
                               d = override_driver cw f env (newDBDriver drv open2)
                           in if \<not> IsValid d
                              then Inl (ErrorString (''Invalid DBConf: '' @ fmt_v cw d))
                              else Inr \<lparr> MigrationsDir = filepath_Join cw p ''migrations'',
                                         Env = env, Driver = d, PgSchema = pgschema \<rparr>))))"


section \<open>Facts about the expansion\<close>

lemma Expand_literal:
  "CHR ''$'' \<notin> set pre \<Longrightarrow> Expand (pre @ s) mapping = pre @ Expand s mapping"
  by (induction pre) auto






section \<open>Facts about \<open>NewDBConf\<close>\<close>

lemma NewDBConf_read:
  assumes "yaml_ReadFile cw (filepath_Join cw p ''dbconf.yml'') = Inr f"
    and "f (env @ ''.driver'') = Inr drv0" and "f (env @ ''.open'') = Inr open0"
  shows "NewDBConf cw p env pgschema =
           (let drv = os_ExpandEnv (environ cw) drv0;
                d = override_driver cw f env
                      (newDBDriver drv (parse_postgres_url cw drv (os_ExpandEnv (environ cw) open0)))
            in if IsValid d
               then Inr \<lparr> MigrationsDir = filepath_Join cw p ''migrations'',
                          Env = env, Driver = d, PgSchema = pgschema \<rparr>
               else Inl (ErrorString (''Invalid DBConf: '' @ fmt_v cw d)))"
  using assms by (simp add: NewDBConf_def Let_def)

lemma NewDBConf_InrD:
  assumes "NewDBConf cw p env pgschema = Inr conf"
  shows "\<exists>f drv0 open0.
           yaml_ReadFile cw (filepath_Join cw p ''dbconf.yml'') = Inr f
           \<and> f (env @ ''.driver'') = Inr drv0 \<and> f (env @ ''.open'') = Inr open0"
  using assms by (auto simp: NewDBConf_def Let_def split: sum.splits)

text \<open>
  A project directory \<open>db\<close> whose \<open>dbconf.yml\<close> has one environment, \<open>development\<close>,
  on the Postgres driver, with references to two environment variables of which only
  \<open>DB_USER\<close> is set. Paths are joined with a slash; the open string is no URL.
\<close>

definition example_file :: yaml_File where
  "example_file key =
     (if key = ''development.driver'' then Inr ''postgres''
      else if key = ''development.open''
           then Inr ''user=$DB_USER dbname=${DB_NAME} sslmode=disable''
      else Inl (LibError ''yaml: node not found''))"

definition example_world :: config_world where
  "example_world =
     \<lparr> filepath_Join = (\<lambda>a b. a @ ''/'' @ b),
       yaml_ReadFile = (\<lambda>path. if path = ''db/dbconf.yml'' then Inr example_file
                               else Inl (LibError ''open: no such file or directory'')),
       environ = [''DB_USER'' \<mapsto> ''goose''],
       pq_ParseURL = (\<lambda>s. Inl (LibError ''invalid connection protocol: '')),
       dialectByName = (\<lambda>n. if n = ''postgres'' then Some PostgresDialect
                            else if n = ''sqlite3'' then Some (OtherDialect 1)
                            else None),
       fmt_v = (\<lambda>d. ''{'' @ Name d @ '' '' @ OpenStr d @ '' '' @ Import d @ ''}'') \<rparr>"

lemma example_expansion:
  "os_ExpandEnv (environ example_world) ''user=$DB_USER dbname=${DB_NAME} sslmode=disable''
     = ''user=goose dbname= sslmode=disable''"
  by (simp add: os_ExpandEnv_def os_Getenv_def example_world_def isShellSpecialVar_def
      isAlphaNum_def)

definition example_conf :: DBConf where
  "example_conf =
     \<lparr> MigrationsDir = ''db/migrations'', Env = ''development'',
       Driver = \<lparr> Name = ''postgres'', OpenStr = ''user=goose dbname= sslmode=disable'',
                  Import = ''github.com/lib/pq'', Dialect = Some PostgresDialect \<rparr>,
       PgSchema = ''tenant_a'' \<rparr>"

lemma example_resolution:
  "NewDBConf example_world ''db'' ''development'' ''tenant_a'' =
     Inr example_conf"
proof -
  have d: "os_ExpandEnv (environ example_world) ''postgres'' = ''postgres''"
    by (simp add: os_ExpandEnv_def)
  have "yaml_ReadFile example_world (filepath_Join example_world ''db'' ''dbconf.yml'')
          = Inr example_file"
    by (simp add: example_world_def)
  from NewDBConf_read [OF this, of "''development''" "''postgres''"
      "''user=$DB_USER dbname=${DB_NAME} sslmode=disable''" "''tenant_a''"]
  show ?thesis
    by (simp add: example_file_def d example_expansion)
       (simp add: example_world_def parse_postgres_url_def override_driver_def
          newDBDriver_def IsValid_def example_file_def example_conf_def)
qed

text \<open>
  C6. Every configuration that \<open>NewDBConf\<close> returns has the migrations directory
  \<open>filepath.Join(p, "migrations")\<close>, the environment name it was called with, and the
  schema it was called with, whatever the configuration file holds.
\<close>

theorem resolved_fields_from_arguments:
  assumes "NewDBConf cw p env pgschema = Inr conf"
  shows "MigrationsDir conf = filepath_Join cw p ''migrations''
         \<and> Env conf = env \<and> PgSchema conf = pgschema"
proof -
  from NewDBConf_InrD [OF assms] obtain f drv0 open0
    where "yaml_ReadFile cw (filepath_Join cw p ''dbconf.yml'') = Inr f"
      and "f (env @ ''.driver'') = Inr drv0" and "f (env @ ''.open'') = Inr open0"
    by blast
  from NewDBConf_read [OF this, of pgschema] assms show ?thesis
    by (auto simp: Let_def split: if_splits)
qed

theorem resolved_fields_from_arguments_witness:
  "NewDBConf example_world ''db'' ''development'' ''tenant_a'' = Inr example_conf
   \<and> MigrationsDir example_conf = filepath_Join example_world ''db'' ''migrations''
   \<and> Env example_conf = ''development'' \<and> PgSchema example_conf = ''tenant_a''"
  using resolved_fields_from_arguments [OF example_resolution] example_resolution
  by simp


section \<open>Drivers the registry does not know\<close>

text \<open>
  Four configuration files on drivers other than \<open>postgres\<close>: one without
  overrides, one with an import and a dialect that \<open>dialectByName\<close> knows, one with
  an import and a dialect name that \<open>dialectByName\<close> answers with nil, and one whose
  import override is the empty string.
\<close>

definition file_no_overrides :: yaml_File where
  "file_no_overrides key =
     (if key = ''development.driver'' then Inr ''sqlite3''
      else if key = ''development.open'' then Inr ''app.db''
      else Inl (LibError ''yaml: node not found''))"

definition file_sqlite3 :: yaml_File where
  "file_sqlite3 key =
     (if key = ''development.driver'' then Inr ''sqlite3''
      else if key = ''development.open'' then Inr ''app.db''
      else if key = ''development.import'' then Inr ''github.com/mattn/go-sqlite3''
      else if key = ''development.dialect'' then Inr ''sqlite3''
      else Inl (LibError ''yaml: node not found''))"

definition file_oracle :: yaml_File where
  "file_oracle key =
     (if key = ''development.driver'' then Inr ''oci8''
      else if key = ''development.open'' then Inr ''scott/tiger@db''
      else if key = ''development.import'' then Inr ''github.com/mattn/go-oci8''
      else if key = ''development.dialect'' then Inr ''oracle''
      else Inl (LibError ''yaml: node not found''))"

definition file_empty_import :: yaml_File where
  "file_empty_import key =
     (if key = ''development.driver'' then Inr ''sqlite3''
      else if key = ''development.open'' then Inr ''app.db''
      else if key = ''development.import'' then Inr []
      else if key = ''development.dialect'' then Inr ''sqlite3''
      else Inl (LibError ''yaml: node not found''))"

definition world_of :: "yaml_File \<Rightarrow> config_world" where
  "world_of f =
     example_world \<lparr> yaml_ReadFile :=
       (\<lambda>path. if path = ''db/dbconf.yml'' then Inr f
               else Inl (LibError ''open: no such file or directory'')) \<rparr>"

lemma world_of_simps:
  "yaml_ReadFile (world_of f) (filepath_Join (world_of f) ''db'' ''dbconf.yml'') = Inr f"
  "yaml_ReadFile (world_of f) ''db/dbconf.yml'' = Inr f"
  "filepath_Join (world_of f) a b = a @ ''/'' @ b"
  "dialectByName (world_of f) ''sqlite3'' = Some (OtherDialect 1)"
  "dialectByName (world_of f) ''oracle'' = None"
  "fmt_v (world_of f) d = ''{'' @ Name d @ '' '' @ OpenStr d @ '' '' @ Import d @ ''}''"
  "environ (world_of f) = [''DB_USER'' \<mapsto> ''goose'']"
  by (simp_all add: world_of_def example_world_def)

lemma Expand_no_dollar:
  "CHR ''$'' \<notin> set s \<Longrightarrow> os_ExpandEnv E s = s"
  using Expand_literal [of s "[]" "os_Getenv E"] by (simp add: os_ExpandEnv_def)

text \<open>
  C5, as the code has it. For a driver name other than \<open>postgres\<close> the registry gives
  an empty import and a nil dialect. If the file has neither an \<open>import\<close> nor a
  \<open>dialect\<close> key for the environment, \<open>NewDBConf\<close> returns the error
  "Invalid DBConf". If the file has both, the import is not empty and
  \<open>dialectByName\<close> answers the dialect name with a dialect, \<open>NewDBConf\<close> returns the
  configuration with these two values.
\<close>

theorem unknown_driver_needs_overrides:
  assumes "yaml_ReadFile cw (filepath_Join cw p ''dbconf.yml'') = Inr f"
    and "f (env @ ''.driver'') = Inr drv0" and "f (env @ ''.open'') = Inr open0"
    and "os_ExpandEnv (environ cw) drv0 \<noteq> ''postgres''"
  shows "newDBDriver (os_ExpandEnv (environ cw) drv0) (os_ExpandEnv (environ cw) open0) =
           \<lparr> Name = os_ExpandEnv (environ cw) drv0, OpenStr = os_ExpandEnv (environ cw) open0,
             Import = [], Dialect = None \<rparr>
       \<and> (f (env @ ''.import'') = Inl e1 \<and> f (env @ ''.dialect'') = Inl e2 \<longrightarrow>
            NewDBConf cw p env pgschema =
              Inl (ErrorString (''Invalid DBConf: '' @ fmt_v cw
                     \<lparr> Name = os_ExpandEnv (environ cw) drv0,
                       OpenStr = os_ExpandEnv (environ cw) open0,
                       Import = [], Dialect = None \<rparr>)))
       \<and> (f (env @ ''.import'') = Inr imprt \<and> imprt \<noteq> [] \<and> f (env @ ''.dialect'') = Inr dialect
            \<and> dialectByName cw dialect = Some dl \<longrightarrow>
            NewDBConf cw p env pgschema =
              Inr \<lparr> MigrationsDir = filepath_Join cw p ''migrations'', Env = env,
                    Driver = \<lparr> Name = os_ExpandEnv (environ cw) drv0,
                               OpenStr = os_ExpandEnv (environ cw) open0,
                               Import = imprt, Dialect = Some dl \<rparr>,
                    PgSchema = pgschema \<rparr>)"
proof -
  let ?drv = "os_ExpandEnv (environ cw) drv0" and ?open = "os_ExpandEnv (environ cw) open0"
  have reg: "newDBDriver ?drv ?open =
               \<lparr> Name = ?drv, OpenStr = ?open, Import = [], Dialect = None \<rparr>"
    using assms(4) by (simp add: newDBDriver_def)
  have url: "parse_postgres_url cw ?drv ?open = ?open"
    using assms(4) by (simp add: parse_postgres_url_def)
  note run = NewDBConf_read [OF assms(1-3), of pgschema, unfolded Let_def url reg]
  have none: "f (env @ ''.import'') = Inl e1 \<and> f (env @ ''.dialect'') = Inl e2 \<longrightarrow>
            NewDBConf cw p env pgschema =
              Inl (ErrorString (''Invalid DBConf: '' @ fmt_v cw
                     \<lparr> Name = ?drv, OpenStr = ?open, Import = [], Dialect = None \<rparr>))"
    unfolding run by (simp add: override_driver_def IsValid_def)
  have both: "f (env @ ''.import'') = Inr imprt \<and> imprt \<noteq> [] \<and> f (env @ ''.dialect'') = Inr dialect
            \<and> dialectByName cw dialect = Some dl \<longrightarrow>
            NewDBConf cw p env pgschema =
              Inr \<lparr> MigrationsDir = filepath_Join cw p ''migrations'', Env = env,
                    Driver = \<lparr> Name = ?drv, OpenStr = ?open, Import = imprt, Dialect = Some dl \<rparr>,
                    PgSchema = pgschema \<rparr>"
    unfolding run by (simp add: override_driver_def IsValid_def)
  from reg none both show ?thesis
    by (simp only: simp_thms)
qed

theorem unknown_driver_needs_overrides_witness:
  "NewDBConf (world_of file_no_overrides) ''db'' ''development'' [] =
     Inl (ErrorString ''Invalid DBConf: {sqlite3 app.db }'')
   \<and> NewDBConf (world_of file_sqlite3) ''db'' ''development'' [] =
     Inr \<lparr> MigrationsDir = ''db/migrations'', Env = ''development'',
           Driver = \<lparr> Name = ''sqlite3'', OpenStr = ''app.db'',
                      Import = ''github.com/mattn/go-sqlite3'', Dialect = Some (OtherDialect 1) \<rparr>,
           PgSchema = [] \<rparr>"
proof -
  have d: "os_ExpandEnv E ''sqlite3'' = ''sqlite3''" and o: "os_ExpandEnv E ''app.db'' = ''app.db''" for E
    by (simp_all add: Expand_no_dollar)
  have a: "NewDBConf (world_of file_no_overrides) ''db'' ''development'' [] =
             Inl (ErrorString ''Invalid DBConf: {sqlite3 app.db }'')"
    using unknown_driver_needs_overrides [where cw = "world_of file_no_overrides"
        and p = "''db''" and f = file_no_overrides and env = "''development''"
        and ?drv0.0 = "''sqlite3''" and ?open0.0 = "''app.db''"
        and ?e1.0 = "LibError ''yaml: node not found''"
        and ?e2.0 = "LibError ''yaml: node not found''" and pgschema = "[]",
        THEN conjunct2, THEN conjunct1]
    by (simp add: world_of_simps d o) (simp add: file_no_overrides_def)
  have b: "NewDBConf (world_of file_sqlite3) ''db'' ''development'' [] =
     Inr \<lparr> MigrationsDir = ''db/migrations'', Env = ''development'',
           Driver = \<lparr> Name = ''sqlite3'', OpenStr = ''app.db'',
                      Import = ''github.com/mattn/go-sqlite3'', Dialect = Some (OtherDialect 1) \<rparr>,
           PgSchema = [] \<rparr>"
    using unknown_driver_needs_overrides [where cw = "world_of file_sqlite3"
        and p = "''db''" and f = file_sqlite3 and env = "''development''"
        and ?drv0.0 = "''sqlite3''" and ?open0.0 = "''app.db''"
        and imprt = "''github.com/mattn/go-sqlite3''" and dialect = "''sqlite3''"
        and dl = "OtherDialect 1" and pgschema = "[]",
        THEN conjunct2, THEN conjunct2]
    by (simp add: world_of_simps d o) (simp add: file_sqlite3_def)
  from a b show ?thesis
    by (rule conjI)
qed

text \<open>
  The claim as the spec states it fails: a file that supplies both overrides does not
  make the resolution succeed when the dialect name is one that \<open>dialectByName\<close>
  answers with nil, or when the import it supplies is empty.
\<close>

theorem both_overrides_do_not_suffice:
  "file_oracle ''development.import'' = Inr ''github.com/mattn/go-oci8''
   \<and> file_oracle ''development.dialect'' = Inr ''oracle''
   \<and> NewDBConf (world_of file_oracle) ''db'' ''development'' [] =
       Inl (ErrorString ''Invalid DBConf: {oci8 scott/tiger@db github.com/mattn/go-oci8}'')
   \<and> file_empty_import ''development.import'' = Inr []
   \<and> file_empty_import ''development.dialect'' = Inr ''sqlite3''
   \<and> NewDBConf (world_of file_empty_import) ''db'' ''development'' [] =
       Inl (ErrorString ''Invalid DBConf: {sqlite3 app.db }'')"
proof -
  have x: "os_ExpandEnv E ''sqlite3'' = ''sqlite3''" "os_ExpandEnv E ''app.db'' = ''app.db''"
    "os_ExpandEnv E ''oci8'' = ''oci8''" "os_ExpandEnv E ''scott/tiger@db'' = ''scott/tiger@db''" for E
    by (simp_all add: Expand_no_dollar)
  have a: "NewDBConf (world_of file_oracle) ''db'' ''development'' [] =
       Inl (ErrorString ''Invalid DBConf: {oci8 scott/tiger@db github.com/mattn/go-oci8}'')"
    using NewDBConf_read [of "world_of file_oracle" "''db''" file_oracle "''development''"
        "''oci8''" "''scott/tiger@db''" "[]"]
    by (simp add: world_of_simps x file_oracle_def)
       (simp add: parse_postgres_url_def override_driver_def newDBDriver_def IsValid_def
          world_of_simps file_oracle_def)
  have b: "NewDBConf (world_of file_empty_import) ''db'' ''development'' [] =
       Inl (ErrorString ''Invalid DBConf: {sqlite3 app.db }'')"
    using NewDBConf_read [of "world_of file_empty_import" "''db''" file_empty_import
        "''development''" "''sqlite3''" "''app.db''" "[]"]
    by (simp add: world_of_simps x file_empty_import_def)
       (simp add: parse_postgres_url_def override_driver_def newDBDriver_def IsValid_def
          world_of_simps file_empty_import_def)
  from a b show ?thesis
    by (simp add: file_oracle_def file_empty_import_def)
qed


section \<open>Postgres URLs\<close>





definition dsn_unquoted :: string where
  "dsn_unquoted = ''dbname=mydb host=host password=p port=5432 user=u''"




lemma dsn_unquoted_match:
  "FindStringSubmatch dsn_unquoted = Some [''dbname=mydb'', ''mydb'']"
  by (simp add: dsn_unquoted_def match_here_def not_space_def FindStringSubmatch.simps)





section \<open>References to environment variables in the configuration\<close>




section \<open>Every match is replaced\<close>

lemma match_here_Nil: "match_here [] = None"
  by (simp add: match_here_def)

lemma Replace_Nil: "ReplaceAllLiteralString [] repl = []"
  by (simp add: ReplaceAllLiteralString.simps [of "[]"] match_here_Nil)

lemma Replace_Some:
  "match_here s = Some (v, rest) \<Longrightarrow>
   ReplaceAllLiteralString s repl = repl @ ReplaceAllLiteralString rest repl"
  by (simp add: ReplaceAllLiteralString.simps [of s])

lemma Replace_None:
  "match_here (c # cs) = None \<Longrightarrow>
   ReplaceAllLiteralString (c # cs) repl = c # ReplaceAllLiteralString cs repl"
  by (simp add: ReplaceAllLiteralString.simps [of "c # cs"])

lemma Find_Some:
  "match_here s = Some (v, rest) \<Longrightarrow> FindStringSubmatch s = Some [''dbname='' @ v, v]"
  by (simp add: FindStringSubmatch.simps [of s])

lemma Find_None:
  "match_here (c # cs) = None \<Longrightarrow> FindStringSubmatch (c # cs) = FindStringSubmatch cs"
  by (simp add: FindStringSubmatch.simps [of "c # cs"])

text \<open>
  The leftmost match: when the string is \<open>pre\<close>, \<open>dbname=\<close>, a non-empty value \<open>v\<close>
  without a space, and a rest that is empty or begins with a space, and no match
  begins before the end of \<open>pre\<close>, the group is \<open>v\<close> and the replacement goes on in
  the rest.
\<close>

lemma first_match:
  assumes "v \<noteq> []" and "\<forall>c\<in>set v. c \<noteq> CHR '' ''" and "rest = [] \<or> hd rest = CHR '' ''"
  shows "s = pre @ ''dbname='' @ v @ rest \<Longrightarrow>
         \<forall>pre' c rest'. s = pre' @ ''dbname='' @ c # rest' \<and> c \<noteq> CHR '' ''
           \<longrightarrow> length pre \<le> length pre' \<Longrightarrow>
         FindStringSubmatch s = Some [''dbname='' @ v, v]
         \<and> ReplaceAllLiteralString s repl = pre @ repl @ ReplaceAllLiteralString rest repl"
proof (induction pre arbitrary: s)
  case Nil
  have "match_here s = Some (v, rest)"
    using match_here_SomeI [OF assms] Nil.prems(1) by simp
  then show ?case
    by (simp add: Find_Some Replace_Some)
next
  case (Cons x xs)
  let ?t = "xs @ ''dbname='' @ v @ rest"
  have s: "s = x # ?t"
    using Cons.prems(1) by simp
  have none: "match_here (x # ?t) = None"
  proof (rule ccontr)
    assume "match_here (x # ?t) \<noteq> None"
    then have "\<exists>c r. x # ?t = ''dbname='' @ c # r \<and> c \<noteq> CHR '' ''"
      by (simp only: match_here_None_iff not_not)
    then obtain c r where "x # ?t = ''dbname='' @ c # r" and "c \<noteq> CHR '' ''"
      by blast
    then have "s = [] @ ''dbname='' @ c # r \<and> c \<noteq> CHR '' ''"
      using s by simp
    with Cons.prems(2) have "length (x # xs) \<le> length ([] :: string)"
      by blast
    then show False by simp
  qed
  have first: "\<forall>pre' c rest'. ?t = pre' @ ''dbname='' @ c # rest' \<and> c \<noteq> CHR '' ''
                 \<longrightarrow> length xs \<le> length pre'"
  proof (intro allI impI)
    fix pre' c rest'
    assume "?t = pre' @ ''dbname='' @ c # rest' \<and> c \<noteq> CHR '' ''"
    then have "s = (x # pre') @ ''dbname='' @ c # rest' \<and> c \<noteq> CHR '' ''"
      using s by simp
    with Cons.prems(2) have "length (x # xs) \<le> length (x # pre')"
      by blast
    then show "length xs \<le> length pre'" by simp
  qed
  from Cons.IH [OF refl first] none show ?case
    unfolding s by (simp add: Find_None Replace_None)
qed

lemma Replace_take7:
  "take 7 (ReplaceAllLiteralString s ''dbname=postgres'') = take 7 s"
proof (induction s)
  case Nil
  show ?case by (simp add: Replace_Nil)
next
  case (Cons c cs)
  show ?case
  proof (cases "match_here (c # cs)")
    case None
    from Cons.IH have "take 6 (take 7 (ReplaceAllLiteralString cs ''dbname=postgres''))
                         = take 6 (take 7 cs)"
      by simp
    then have "take 6 (ReplaceAllLiteralString cs ''dbname=postgres'') = take 6 cs"
      by simp
    then show ?thesis
      by (simp add: Replace_None [OF None])
  next
    case (Some a)
    then obtain v rest where m: "match_here (c # cs) = Some (v, rest)"
      by (cases a) auto
    have l: "take 7 (ReplaceAllLiteralString (c # cs) ''dbname=postgres'') = ''dbname=''"
      by (simp add: Replace_Some [OF m])
    have "take 7 (''dbname='' @ v @ rest) = ''dbname=''"
      by simp
    with match_here_SomeD(1) [OF m] have r: "take 7 (c # cs) = ''dbname=''"
      by (simp only:)
    from l r show ?thesis
      by (simp only:)
  qed
qed

lemma Replace_take8:
  assumes "match_here s = None"
  shows "take 8 (ReplaceAllLiteralString s ''dbname=postgres'') = take 8 s"
proof (cases s)
  case Nil
  then show ?thesis by (simp add: Replace_Nil)
next
  case (Cons c cs)
  with assms have "ReplaceAllLiteralString s ''dbname=postgres''
                     = c # ReplaceAllLiteralString cs ''dbname=postgres''"
    by (simp add: Replace_None)
  with Cons Replace_take7 [of cs] show ?thesis
    by simp
qed

lemma Replace_keeps_space:
  assumes "rest = [] \<or> hd rest = CHR '' ''"
  shows "ReplaceAllLiteralString rest repl = []
         \<or> hd (ReplaceAllLiteralString rest repl) = CHR '' ''"
proof (cases rest)
  case Nil
  then show ?thesis by (simp add: Replace_Nil)
next
  case (Cons c cs)
  with assms have c: "c = CHR '' ''" by simp
  have "match_here (c # cs) = None"
    unfolding c by (simp add: match_here_def)
  with Cons c show ?thesis
    by (simp add: Replace_None)
qed

lemma match_here_hd:
  "match_here t = Some (v, r) \<Longrightarrow> \<exists>u. t = CHR ''d'' # u"
  using match_here_SomeD(1) [of t v r] by simp

lemma Replace_all_postgres:
  "match_here (drop j (ReplaceAllLiteralString s ''dbname=postgres'')) = Some (v, r)
   \<Longrightarrow> v = ''postgres''"
proof (induction "length s" arbitrary: s j rule: less_induct)
  case less
  let ?R = "\<lambda>x. ReplaceAllLiteralString x ''dbname=postgres''"
  show ?case
  proof (cases "match_here s")
    case (Some a)
    then obtain v0 rest0 where m: "match_here s = Some (v0, rest0)"
      by (cases a) auto
    have R: "?R s = ''dbname=postgres'' @ ?R rest0"
      by (rule Replace_Some [OF m])
    have shorter: "length rest0 < length s"
      by (rule match_here_shorter [OF m])
    have sp: "?R rest0 = [] \<or> hd (?R rest0) = CHR '' ''"
      by (rule Replace_keeps_space [OF match_here_SomeD(4) [OF m]])
    consider (zero) "j = 0" | (inside) "0 < j" "j < 15" | (after) "15 \<le> j"
      by linarith
    then show ?thesis
    proof cases
      case zero
      have "match_here (''dbname='' @ ''postgres'' @ ?R rest0) = Some (''postgres'', ?R rest0)"
        by (rule match_here_SomeI) (use sp in simp_all)
      with less.prems zero R show ?thesis
        by simp
    next
      case inside
      then have "j = 1 \<or> j = 2 \<or> j = 3 \<or> j = 4 \<or> j = 5 \<or> j = 6 \<or> j = 7 \<or> j = 8
                 \<or> j = 9 \<or> j = 10 \<or> j = 11 \<or> j = 12 \<or> j = 13 \<or> j = 14"
        by arith
      then have "\<exists>x u. drop j (?R s) = x # u \<and> x \<noteq> CHR ''d''"
        unfolding R by (elim disjE) simp_all
      with match_here_hd [OF less.prems] show ?thesis
        by auto
    next
      case after
      have "drop j (?R s) = drop j ''dbname=postgres''
                               @ drop (j - length ''dbname=postgres'') (?R rest0)"
        unfolding R by (rule drop_append)
      moreover have "drop j ''dbname=postgres'' = []"
        using after by (intro drop_all) simp
      moreover have "length ''dbname=postgres'' = 15"
        by simp
      ultimately have "drop j (?R s) = drop (j - 15) (?R rest0)"
        by (simp only: append_Nil)
      with less.prems less.hyps [OF shorter, of "j - 15"] show ?thesis
        by simp
    qed
  next
    case None
    show ?thesis
    proof (cases s)
      case Nil
      with less.prems show ?thesis
        by (simp add: Replace_Nil match_here_Nil)
    next
      case (Cons c cs)
      with None have R: "?R s = c # ?R cs"
        by (simp add: Replace_None)
      show ?thesis
      proof (cases j)
        case 0
        with less.prems have "match_here (?R s) \<noteq> None"
          by simp
        then have "\<exists>x u. ?R s = ''dbname='' @ x # u \<and> x \<noteq> CHR '' ''"
          by (simp only: match_here_None_iff not_not)
        then obtain x u where e: "?R s = ''dbname='' @ x # u" and x: "x \<noteq> CHR '' ''"
          by blast
        from e have "take 8 (?R s) = ''dbname='' @ [x]"
          by simp
        with Replace_take8 [OF None] have "take 8 s = ''dbname='' @ [x]"
          by simp
        then have "take 8 s @ drop 8 s = ''dbname='' @ x # drop 8 s"
          by simp
        then have "s = ''dbname='' @ x # drop 8 s"
          by simp
        with x have "\<exists>c r. s = ''dbname='' @ c # r \<and> c \<noteq> CHR '' ''"
          by blast
        then have "match_here s \<noteq> None"
          by (simp only: match_here_None_iff not_not)
        with None show ?thesis by simp
      next
        case (Suc j')
        with less.prems R have "match_here (drop j' (?R cs)) = Some (v, r)"
          by simp
        with less.hyps [of cs j'] Cons show ?thesis
          by simp
      qed
    qed
  qed
qed


section \<open>The database name and the maintenance connection string\<close>

lemma apply_schema_extends:
  "\<exists>ext. snd (apply_schema w conf db tr) = tr @ ext"
  by (cases db; cases "db_Exec w tr (the db) (''SET search_path TO '' @ PgSchema conf)")
     (simp_all add: apply_schema_def Let_def)

lemma create_database_trace:
  assumes "FindStringSubmatch (OpenStr (Driver conf)) = Some [whole, dbname]"
    and "master = ReplaceAllLiteralString (OpenStr (Driver conf)) ''dbname=postgres''"
    and "tr2 = tr1 @ [Println ''Database does not exist. Trying to create it.'']"
  shows "(\<exists>ext. snd (create_database w conf tr1) =
            tr2 @ [SqlOpen (Name (Driver conf)) master
                     (sql_Open w tr2 (Name (Driver conf)) master)] @ ext)
       \<and> (sql_Open w tr2 (Name (Driver conf)) master = Inr dbm \<longrightarrow>
            (\<exists>r ext. snd (create_database w conf tr1) =
               tr2 @ [SqlOpen (Name (Driver conf)) master (Inr dbm),
                      Exec dbm (''CREATE DATABASE '' @ dbname) r] @ ext))"
proof (cases "sql_Open w tr2 (Name (Driver conf)) master")
  case (Inl e)
  with assms show ?thesis
    by (simp add: create_database_def Let_def)
next
  case (Inr h)
  let ?n = "Name (Driver conf)" and ?o = "OpenStr (Driver conf)"
  let ?tr3 = "tr2 @ [SqlOpen ?n master (Inr h)]"
  let ?stmt = "''CREATE DATABASE '' @ dbname"
  let ?rc = "db_Exec w ?tr3 h ?stmt"
  let ?tr4 = "?tr3 @ [Exec h ?stmt ?rc]"
  have "\<exists>ext. snd (create_database w conf tr1) = ?tr4 @ ext"
  proof (cases ?rc)
    case (Some e)
    with assms Inr show ?thesis
      by (simp add: create_database_def defer_Close_def Let_def)
  next
    case None
    let ?rr = "sql_Open w ?tr4 ?n ?o"
    let ?tr5 = "?tr4 @ [SqlOpen ?n ?o ?rr]"
    let ?db = "case ?rr of Inl e \<Rightarrow> None | Inr d \<Rightarrow> Some d"
    obtain ext where "snd (apply_schema w conf ?db ?tr5) = ?tr5 @ ext"
      using apply_schema_extends by blast
    moreover have "create_database w conf tr1 = defer_Close h (apply_schema w conf ?db ?tr5)"
      using assms Inr None by (simp add: create_database_def Let_def)
    ultimately have "snd (create_database w conf tr1)
                       = ?tr4 @ ([SqlOpen ?n ?o ?rr] @ ext @ [Close h])"
      by (simp add: defer_Close_def)
    then show ?thesis
      by (rule exI)
  qed
  then obtain ext where e: "snd (create_database w conf tr1) = ?tr4 @ ext"
    by blast
  from e have e1: "snd (create_database w conf tr1) =
      tr2 @ [SqlOpen ?n master (sql_Open w tr2 ?n master)] @ (Exec h ?stmt ?rc # ext)"
    by (simp add: Inr)
  from e have e2: "snd (create_database w conf tr1) =
      tr2 @ [SqlOpen ?n master (Inr h), Exec h ?stmt ?rc] @ ext"
    by simp
  have c1: "\<exists>ext. snd (create_database w conf tr1) =
      tr2 @ [SqlOpen ?n master (sql_Open w tr2 ?n master)] @ ext"
    using e1 by (rule exI)
  have c2: "sql_Open w tr2 ?n master = Inr dbm \<longrightarrow>
      (\<exists>r ext. snd (create_database w conf tr1) =
         tr2 @ [SqlOpen ?n master (Inr dbm), Exec dbm ?stmt r] @ ext)"
  proof
    assume "sql_Open w tr2 ?n master = Inr dbm"
    with Inr have h: "dbm = h" by simp
    show "\<exists>r ext. snd (create_database w conf tr1) =
         tr2 @ [SqlOpen ?n master (Inr dbm), Exec dbm ?stmt r] @ ext"
      unfolding h using e2 by (intro exI)
  qed
  from c1 c2 show ?thesis
    by (rule conjI)
qed

lemma first_if_no_d:
  assumes "CHR ''d'' \<notin> set pre" and "s = pre @ t"
  shows "\<forall>pre' c rest'. s = pre' @ ''dbname='' @ c # rest' \<and> c \<noteq> CHR '' ''
           \<longrightarrow> length pre \<le> length pre'"
proof (intro allI impI, rule ccontr)
  fix pre' c rest'
  assume a: "s = pre' @ ''dbname='' @ c # rest' \<and> c \<noteq> CHR '' ''"
    and "\<not> length pre \<le> length pre'"
  then have lt: "length pre' < length pre"
    by simp
  from a have "s ! length pre' = CHR ''d''"
    by (simp add: nth_append)
  moreover from lt assms(2) have "s ! length pre' = pre ! length pre'"
    by (simp add: nth_append)
  ultimately have "CHR ''d'' \<in> set pre"
    using lt nth_mem [of "length pre'" pre] by simp
  with assms(1) show False by simp
qed


lemma Replace_all_postgres_decomposed:
  assumes r: "master = ReplaceAllLiteralString s ''dbname=postgres''"
  shows "master = pre' @ ''dbname='' @ c # rest' \<and> c \<noteq> CHR '' '' \<longrightarrow>
            (\<exists>r. c # rest' = ''postgres'' @ r \<and> (r = [] \<or> hd r = CHR '' ''))"
proof (intro impI, elim conjE)
  assume e: "master = pre' @ ''dbname='' @ c # rest'" and c: "c \<noteq> CHR '' ''"
  have d: "drop (length pre') master = ''dbname='' @ c # rest'"
    unfolding e by simp
  from c have "\<exists>x u. ''dbname='' @ c # rest' = ''dbname='' @ x # u \<and> x \<noteq> CHR '' ''"
    by (intro exI [of _ c] exI [of _ rest']) simp
  then have "match_here (''dbname='' @ c # rest') \<noteq> None"
    by (simp only: match_here_None_iff not_not)
  then have "match_here (drop (length pre') master) \<noteq> None"
    unfolding d .
  then have "\<exists>q. match_here (drop (length pre') master) = Some q"
    by (simp only: not_None_eq)
  then obtain q where "match_here (drop (length pre') master) = Some q"
    by (rule exE)
  then obtain v' r' where mh: "match_here (drop (length pre') master) = Some (v', r')"
    by (cases q) simp
  from Replace_all_postgres [OF mh [unfolded r]] have v': "v' = ''postgres''" .
  from match_here_SomeD(1) [OF mh] have "''dbname='' @ c # rest' = ''dbname='' @ v' @ r'"
    unfolding d .
  then have "c # rest' = ''postgres'' @ r'"
    unfolding v' by simp
  then have "c # rest' = ''postgres'' @ r' \<and> (r' = [] \<or> hd r' = CHR '' '')"
    using match_here_SomeD(4) [OF mh] by (rule conjI)
  then show "\<exists>r. c # rest' = ''postgres'' @ r \<and> (r = [] \<or> hd r = CHR '' '')"
    by (rule exI [of "\<lambda>r. c # rest' = ''postgres'' @ r \<and> (r = [] \<or> hd r = CHR '' '')" r'])
qed

text \<open>
  A connection string with two \<open>dbname=\<close> pairs, the first with a tab in its value.
\<close>

definition conf_two_dbnames :: DBConf where
  "conf_two_dbnames =
     \<lparr> MigrationsDir = ''db/migrations'', Env = ''development'',
       Driver = \<lparr> Name = ''postgres'',
                  OpenStr = ''host=h dbname=a'' @ [CHR 0x09] @ ''b dbname=c'',
                  Import = ''github.com/lib/pq'', Dialect = Some PostgresDialect \<rparr>,
       PgSchema = [] \<rparr>"

text \<open>
  C10. Let provisioning be reached, and let the connection string be \<open>pre\<close>, then
  \<open>dbname=\<close>, then a non-empty value \<open>v\<close> without a space (any other character, a tab
  included, may occur in it), then a rest that is empty or begins with a space, where
  no match of the pattern begins before the end of \<open>pre\<close>. Then the fourth event is
  the open of the maintenance connection string, which is \<open>pre\<close>, \<open>dbname=postgres\<close>
  and the rest with its matches replaced in the same way; if that open succeeds, the
  next event executes \<open>CREATE DATABASE v\<close> on it. In the maintenance connection
  string every match of the pattern is \<open>dbname=postgres\<close>: no other database name is
  left in it.
\<close>

theorem provisioning_uses_dbname_pattern:
  assumes "sql_Open w [] (Name (Driver conf)) (OpenStr (Driver conf)) = Inr db"
    and "db_Ping w [SqlOpen (Name (Driver conf)) (OpenStr (Driver conf)) (Inr db)] db
           = Some (PqError ''3D000'' msg)"
    and "OpenStr (Driver conf) = pre @ ''dbname='' @ v @ rest"
    and "v \<noteq> []" and "\<forall>c\<in>set v. c \<noteq> CHR '' ''" and "rest = [] \<or> hd rest = CHR '' ''"
    and "\<forall>pre' c rest'. OpenStr (Driver conf) = pre' @ ''dbname='' @ c # rest' \<and> c \<noteq> CHR '' ''
           \<longrightarrow> length pre \<le> length pre'"
    and "master = pre @ ''dbname=postgres'' @ ReplaceAllLiteralString rest ''dbname=postgres''"
    and "tr2 = [SqlOpen (Name (Driver conf)) (OpenStr (Driver conf)) (Inr db),
                Ping db (Some (PqError ''3D000'' msg)),
                Println ''Database does not exist. Trying to create it.'']"
  shows "(\<exists>ext. snd (OpenDBFromDBConf w conf) =
            tr2 @ [SqlOpen (Name (Driver conf)) master
                     (sql_Open w tr2 (Name (Driver conf)) master)] @ ext)
       \<and> (sql_Open w tr2 (Name (Driver conf)) master = Inr dbm \<longrightarrow>
            (\<exists>r ext. snd (OpenDBFromDBConf w conf) =
               tr2 @ [SqlOpen (Name (Driver conf)) master (Inr dbm),
                      Exec dbm (''CREATE DATABASE '' @ v) r] @ ext))
       \<and> (master = pre' @ ''dbname='' @ c # rest' \<and> c \<noteq> CHR '' '' \<longrightarrow>
            (\<exists>r. c # rest' = ''postgres'' @ r \<and> (r = [] \<or> hd r = CHR '' '')))"
proof -
  let ?tr1 = "[SqlOpen (Name (Driver conf)) (OpenStr (Driver conf)) (Inr db),
               Ping db (Some (PqError ''3D000'' msg))]"
  note fm = first_match [OF assms(4-6) assms(3) assms(7), of "''dbname=postgres''"]
  from fm have m: "FindStringSubmatch (OpenStr (Driver conf)) = Some [''dbname='' @ v, v]"
    by (rule conjunct1)
  from fm [THEN conjunct2] assms(8)
  have r: "master = ReplaceAllLiteralString (OpenStr (Driver conf)) ''dbname=postgres''"
    by (simp only:)
  have eq: "OpenDBFromDBConf w conf = create_database w conf ?tr1"
    using assms(1,2) by (simp add: OpenDBFromDBConf_def)
  have tr2: "tr2 = ?tr1 @ [Println ''Database does not exist. Trying to create it.'']"
    using assms(9) by simp
  note t = create_database_trace [OF m r tr2, of w dbm]
  show ?thesis
    unfolding eq
    by (intro conjI)
       (rule t [THEN conjunct1], rule t [THEN conjunct2],
        rule Replace_all_postgres_decomposed [OF r])
qed


theorem provisioning_uses_dbname_pattern_witness:
  "(\<exists>ext. snd (OpenDBFromDBConf world_missing_db conf_two_dbnames) =
      [SqlOpen ''postgres'' (''host=h dbname=a'' @ [CHR 0x09] @ ''b dbname=c'') (Inr 0),
       Ping 0 (Some (PqError ''3D000'' ''database does not exist'')),
       Println ''Database does not exist. Trying to create it.'',
       SqlOpen ''postgres'' ''host=h dbname=postgres dbname=postgres'' (Inr 3)] @ ext)
   \<and> (\<exists>r ext. snd (OpenDBFromDBConf world_missing_db conf_two_dbnames) =
      [SqlOpen ''postgres'' (''host=h dbname=a'' @ [CHR 0x09] @ ''b dbname=c'') (Inr 0),
       Ping 0 (Some (PqError ''3D000'' ''database does not exist'')),
       Println ''Database does not exist. Trying to create it.'',
       SqlOpen ''postgres'' ''host=h dbname=postgres dbname=postgres'' (Inr 3),
       Exec 3 (''CREATE DATABASE a'' @ [CHR 0x09] @ ''b'') r] @ ext)"
proof -
  let ?w = world_missing_db and ?c = conf_two_dbnames
  let ?n = "Name (Driver ?c)" and ?o = "OpenStr (Driver ?c)"
  let ?v = "''a'' @ [CHR 0x09] @ ''b''"
  let ?tr2 = "[SqlOpen ?n ?o (Inr 0),
               Ping 0 (Some (PqError ''3D000'' ''database does not exist'')),
               Println ''Database does not exist. Trying to create it.'']"
  let ?master = "''host=h dbname=postgres dbname=postgres''"
  have h1: "sql_Open ?w [] ?n ?o = Inr 0"
    by (simp add: world_missing_db_def)
  have h2: "db_Ping ?w [SqlOpen ?n ?o (Inr 0)] 0
              = Some (PqError ''3D000'' ''database does not exist'')"
    by (simp add: world_missing_db_def)
  have h3: "?o = ''host=h '' @ ''dbname='' @ ?v @ '' dbname=c''"
    by (simp add: conf_two_dbnames_def)
  have h4: "?v \<noteq> []" and h5: "\<forall>c\<in>set ?v. c \<noteq> CHR '' ''"
    and h6: "'' dbname=c'' = [] \<or> hd '' dbname=c'' = CHR '' ''"
    by simp_all
  have h7: "\<forall>pre' c rest'. ?o = pre' @ ''dbname='' @ c # rest' \<and> c \<noteq> CHR '' ''
              \<longrightarrow> length ''host=h '' \<le> length pre'"
    by (rule first_if_no_d [OF _ h3]) simp
  have "ReplaceAllLiteralString '' dbname=c'' ''dbname=postgres'' = '' dbname=postgres''"
    by (simp add: ReplaceAllLiteralString.simps match_here_def not_space_def)
  then have h8: "?master = ''host=h '' @ ''dbname=postgres''
                   @ ReplaceAllLiteralString '' dbname=c'' ''dbname=postgres''"
    by simp
  have h9: "?tr2 = ?tr2"
    by (rule refl)
  note t = provisioning_uses_dbname_pattern [where dbm = 3, OF h1 h2 h3 h4 h5 h6 h7 h8 h9]
  have open3: "sql_Open ?w ?tr2 ?n ?master = Inr 3"
    by (simp add: world_missing_db_def)
  have n: "?n = ''postgres''" and o: "?o = ''host=h dbname=a'' @ [CHR 0x09] @ ''b dbname=c''"
    by (simp_all add: conf_two_dbnames_def)
  note c1 = t [THEN conjunct1, unfolded open3]
  note c2 = t [THEN conjunct2, THEN conjunct1, THEN mp, OF open3]
  from c1 c2 show ?thesis
    unfolding n o by simp
qed

end
